theory Spec2Isabelle
  imports Complex_Main "HOL-Library.Multiset"
begin

section \<open>Values of the Python program\<close>

text \<open>
  The program computes with IEEE doubles. Finite doubles are idealised as reals, so
  \<open>+\<close>, \<open>-\<close>, \<open>*\<close> and \<open>/\<close> are exact; what Python and numpy do at a zero divisor is
  written out below, because HOL's \<open>x / 0 = 0\<close> is not what either of them does.
  An instant (\<open>datetime.now()\<close>, a stored timestamp) is its POSIX time, so that every value
  of an observation dict is a number.
\<close>

type_synonym instant = real

text \<open>A dict with string keys, in insertion order, as Python keeps it.\<close>

type_synonym dict = "(string \<times> real) list"

datatype error = KeyError | ZeroDivisionError | OperationalError | UnicodeEncodeError

text \<open>\<open>d[k]\<close> raises KeyError on a missing key; \<open>d.get(k, default)\<close> does not.\<close>

definition getitem :: "dict \<Rightarrow> string \<Rightarrow> error + real" where
  "getitem d k = (case map_of d k of None \<Rightarrow> Inl KeyError | Some v \<Rightarrow> Inr v)"

definition dict_get :: "(string \<times> 'v) list \<Rightarrow> string \<Rightarrow> 'v \<Rightarrow> 'v" where
  "dict_get d k dflt = (case map_of d k of None \<Rightarrow> dflt | Some v \<Rightarrow> v)"

text \<open>Division of two Python floats: a zero divisor raises.\<close>

definition truediv :: "real \<Rightarrow> real \<Rightarrow> error + real" where
  "truediv a b = (if b = 0 then Inl ZeroDivisionError else Inr (a / b))"

text \<open>
  \<open>round(x, ndigits)\<close>: the nearest multiple of \<open>10 ^ - ndigits\<close>, a tie going to the
  even multiple.
\<close>

definition py_round :: "real \<Rightarrow> nat \<Rightarrow> real" where
  "py_round x ndigits =
     (let y = x * 10 ^ ndigits;
          f = \<lfloor>y\<rfloor>;
          d = y - of_int f;
          r = (if d < 1 / 2 then f else if 1 / 2 < d then f + 1 else if even f then f else f + 1)
      in of_int r / 10 ^ ndigits)"

text \<open>
  The generator of module \<open>random\<close> is the stream of values its \<open>random()\<close> will return
  next, each in \<open>[0, 1)\<close>; \<open>random.uniform(a, b)\<close> is \<open>a + (b - a) * random()\<close> and advances
  the stream by one.
\<close>

type_synonym rng = "nat \<Rightarrow> real"

definition unit_draws :: "rng \<Rightarrow> bool" where
  "unit_draws g = (\<forall>n. 0 \<le> g n \<and> g n < 1)"

definition random_uniform :: "real \<Rightarrow> real \<Rightarrow> rng \<Rightarrow> real \<times> rng" where
  "random_uniform a b g = (a + (b - a) * g 0, \<lambda>n. g (Suc n))"

text \<open>
  A call to an external service either raises or returns.
  \<open>Ticker.history(period="1d")\<close> returns a frame of which the program reads only the column
  \<open>Close\<close>, oldest row first; \<open>[]\<close> is the empty frame and \<open>.iloc[-1]\<close> is \<open>last\<close>.
\<close>

datatype 'a attempt = Raised | Returned 'a

type_synonym history = "real list"

text \<open>
  The HTTP response of the exchange-rate service: its status code, and what
  \<open>response.json()['rates']\<close> gives (it raises on a body that is not JSON or has no rates).
\<close>

datatype response = Response nat "dict attempt"


section \<open>Fallback generators (realtime\_data\_collector.py)\<close>

definition get_fallback_fuel_prices :: "instant \<Rightarrow> rng \<Rightarrow> dict \<times> rng" where
  "get_fallback_fuel_prices now g0 =
     (let (jet, g1) = random_uniform 2.3 2.6 g0;
          (brent, g2) = random_uniform 60 70 g1;
          (wti, g3) = random_uniform 55 65 g2
      in ([(''jet_fuel'', py_round jet 6),
           (''brent_crude'', py_round brent 2),
           (''wti_crude'', py_round wti 2),
           (''timestamp'', now)], g3))"

definition get_fallback_currency_rates :: "instant \<Rightarrow> rng \<Rightarrow> dict \<times> rng" where
  "get_fallback_currency_rates now g0 =
     (let (usd, g1) = random_uniform 88 90 g0;
          (eur, g2) = random_uniform 102 105 g1;
          (gbp, g3) = random_uniform 117 120 g2;
          (jpy, g4) = random_uniform 0.57 0.58 g3
      in ([(''usd_inr'', py_round usd 2),
           (''eur_inr'', py_round eur 2),
           (''gbp_inr'', py_round gbp 2),
           (''jpy_inr'', py_round jpy 6),
           (''timestamp'', now)], g4))"


section \<open>Rate fetchers (realtime\_data\_collector.py)\<close>

text \<open>
  \<open>get_live_fuel_prices\<close>: both histories are fetched inside one \<open>try\<close>; an exception
  anywhere, or an empty frame, leads to the fallback generator. The declared result is
  \<open>Optional[Dict]\<close>, hence the \<open>option\<close>.
\<close>

definition get_live_fuel_prices ::
  "history attempt \<Rightarrow> history attempt \<Rightarrow> instant \<Rightarrow> rng \<Rightarrow> dict option \<times> rng" where
  "get_live_fuel_prices brent_ticker wti_ticker now g =
     (case brent_ticker of
        Raised \<Rightarrow> apfst Some (get_fallback_fuel_prices now g)
      | Returned brent_data \<Rightarrow>
          (case wti_ticker of
             Raised \<Rightarrow> apfst Some (get_fallback_fuel_prices now g)
           | Returned wti_data \<Rightarrow>
               if brent_data \<noteq> [] \<and> wti_data \<noteq> [] then
                 (let brent_price = last brent_data;
                      wti_price = last wti_data;
                      jet_fuel_price = (brent_price + wti_price) / 2 * 1.35
                  in (Some [(''jet_fuel'', py_round jet_fuel_price 6),
                            (''brent_crude'', py_round brent_price 2),
                            (''wti_crude'', py_round wti_price 2),
                            (''timestamp'', now)], g))
               else apfst Some (get_fallback_fuel_prices now g)))"

text \<open>
  Method 1 of \<open>get_live_currency_rates\<close>, the inner \<open>try\<close> around the exchange-rate
  service. \<open>None\<close> means that the block did not return: the request or the decoding raised,
  a division raised, or the status was not 200.
\<close>

definition exchangerate_api :: "response attempt \<Rightarrow> instant \<Rightarrow> dict option" where
  "exchangerate_api resp now =
     (case resp of
        Raised \<Rightarrow> None
      | Returned (Response status_code body) \<Rightarrow>
          if status_code = 200 then
            (case body of
               Raised \<Rightarrow> None
             | Returned rates \<Rightarrow>
                 (case truediv (dict_get rates ''INR'' 83.0) (dict_get rates ''EUR'' 0.85) of
                    Inl e \<Rightarrow> None
                  | Inr eur \<Rightarrow>
                 (case truediv (dict_get rates ''INR'' 83.0) (dict_get rates ''GBP'' 0.73) of
                    Inl e \<Rightarrow> None
                  | Inr gbp \<Rightarrow>
                 (case truediv (dict_get rates ''INR'' 83.0) (dict_get rates ''JPY'' 110.0) of
                    Inl e \<Rightarrow> None
                  | Inr jpy \<Rightarrow>
                      Some [(''usd_inr'', py_round (dict_get rates ''INR'' 83.0) 2),
                            (''eur_inr'', py_round eur 2),
                            (''gbp_inr'', py_round gbp 2),
                            (''jpy_inr'', py_round jpy 6),
                            (''timestamp'', now)]))))
          else None)"

text \<open>
  Method 2, the inner \<open>try\<close> around the four direct pair quotes. The four histories are
  fetched first, so one that raises ends the block; then only the USD/INR frame decides
  whether the block returns.
\<close>

definition yahoo_finance_pairs ::
  "history attempt \<Rightarrow> history attempt \<Rightarrow> history attempt \<Rightarrow> history attempt \<Rightarrow> instant
     \<Rightarrow> dict option" where
  "yahoo_finance_pairs usd_ticker eur_ticker gbp_ticker jpy_ticker now =
     (case usd_ticker of Raised \<Rightarrow> None | Returned usd_data \<Rightarrow>
     (case eur_ticker of Raised \<Rightarrow> None | Returned eur_data \<Rightarrow>
     (case gbp_ticker of Raised \<Rightarrow> None | Returned gbp_data \<Rightarrow>
     (case jpy_ticker of Raised \<Rightarrow> None | Returned jpy_data \<Rightarrow>
        if usd_data \<noteq> [] then
          Some [(''usd_inr'', py_round (last usd_data) 2),
                (''eur_inr'', if eur_data \<noteq> [] then py_round (last eur_data) 2 else 90.0),
                (''gbp_inr'', if gbp_data \<noteq> [] then py_round (last gbp_data) 2 else 105.0),
                (''jpy_inr'', if jpy_data \<noteq> [] then py_round (last jpy_data) 6 else 0.55),
                (''timestamp'', now)]
        else None))))"

definition get_live_currency_rates ::
  "response attempt \<Rightarrow> history attempt \<Rightarrow> history attempt \<Rightarrow> history attempt
     \<Rightarrow> history attempt \<Rightarrow> instant \<Rightarrow> rng \<Rightarrow> dict option \<times> rng" where
  "get_live_currency_rates resp usd_ticker eur_ticker gbp_ticker jpy_ticker now g =
     (case exchangerate_api resp now of
        Some currency_rates \<Rightarrow> (Some currency_rates, g)
      | None \<Rightarrow>
          (case yahoo_finance_pairs usd_ticker eur_ticker gbp_ticker jpy_ticker now of
             Some currency_rates \<Rightarrow> (Some currency_rates, g)
           | None \<Rightarrow> apfst Some (get_fallback_currency_rates now g)))"


section \<open>The durable store\<close>

text \<open>
  The two tables of \<open>hedging_data.db\<close>, rows in insertion order. The schema is created
  outside the program, so a table may be missing (\<open>None\<close>); \<open>sqlite3.connect\<close> raises on an
  unreachable store, and a read-only store rejects every \<open>INSERT\<close>.
\<close>

record observation =
  timestamp :: instant

record fuel_row = observation +
  jet_fuel :: real
  brent_crude :: real
  wti_crude :: real

record currency_row = observation +
  usd_inr :: real
  eur_inr :: real
  gbp_inr :: real
  jpy_inr :: real

record store =
  reachable :: bool
  read_only :: bool
  fuel_prices_table :: "fuel_row list option"
  currency_rates_table :: "currency_row list option"


section \<open>Persistence writer and collection cycle (realtime\_data\_collector.py)\<close>

datatype log_record = Info string | Error string

text \<open>The parameter tuples of the two \<open>INSERT\<close> statements: every field is read with \<open>d[k]\<close>.\<close>

definition fuel_params :: "dict \<Rightarrow> error + fuel_row" where
  "fuel_params d =
     (case getitem d ''timestamp'' of Inl e \<Rightarrow> Inl e | Inr t \<Rightarrow>
     (case getitem d ''jet_fuel'' of Inl e \<Rightarrow> Inl e | Inr j \<Rightarrow>
     (case getitem d ''brent_crude'' of Inl e \<Rightarrow> Inl e | Inr b \<Rightarrow>
     (case getitem d ''wti_crude'' of Inl e \<Rightarrow> Inl e | Inr w \<Rightarrow>
        Inr \<lparr>timestamp = t, jet_fuel = j, brent_crude = b, wti_crude = w\<rparr>))))"

definition currency_params :: "dict \<Rightarrow> error + currency_row" where
  "currency_params d =
     (case getitem d ''timestamp'' of Inl e \<Rightarrow> Inl e | Inr t \<Rightarrow>
     (case getitem d ''usd_inr'' of Inl e \<Rightarrow> Inl e | Inr u \<Rightarrow>
     (case getitem d ''eur_inr'' of Inl e \<Rightarrow> Inl e | Inr eu \<Rightarrow>
     (case getitem d ''gbp_inr'' of Inl e \<Rightarrow> Inl e | Inr gb \<Rightarrow>
     (case getitem d ''jpy_inr'' of Inl e \<Rightarrow> Inl e | Inr jp \<Rightarrow>
        Inr \<lparr>timestamp = t, usd_inr = u, eur_inr = eu, gbp_inr = gb, jpy_inr = jp\<rparr>)))))"

text \<open>
  The body of the \<open>try\<close> of \<open>store_data_in_database\<close>: connect, two inserts, one commit.
  Nothing is committed before both inserts have passed, so a failure leaves the store as
  it was.
\<close>

definition insert_both :: "dict \<Rightarrow> dict \<Rightarrow> store \<Rightarrow> error + store" where
  "insert_both fuel currency db =
     (if \<not> reachable db then Inl OperationalError
      else
       (case fuel_params fuel of Inl e \<Rightarrow> Inl e | Inr frow \<Rightarrow>
       (case (if read_only db then None else fuel_prices_table db) of
          None \<Rightarrow> Inl OperationalError
        | Some ftab \<Rightarrow>
       (case currency_params currency of Inl e \<Rightarrow> Inl e | Inr crow \<Rightarrow>
       (case currency_rates_table db of
          None \<Rightarrow> Inl OperationalError
        | Some ctab \<Rightarrow>
            Inr (db\<lparr>fuel_prices_table := Some (ftab @ [frow]),
                    currency_rates_table := Some (ctab @ [crow])\<rparr>))))))"

text \<open>
  \<open>store_data_in_database\<close> returns nothing to its caller: what happened is visible only
  in the store and in the log.
\<close>

definition store_data_in_database :: "dict \<Rightarrow> dict \<Rightarrow> store \<Rightarrow> store \<times> log_record" where
  "store_data_in_database fuel currency db =
     (case insert_both fuel currency db of
        Inr db' \<Rightarrow> (db', Info ''Data stored in database successfully'')
      | Inl e \<Rightarrow> (db, Error ''Error storing data in database''))"

text \<open>
  The report printed after the write. Its lines read the three fuel fields and then the
  four currency fields with \<open>d[k]\<close>; the currency lines hold the rupee sign, and \<open>print\<close>
  raises UnicodeEncodeError on a standard output whose encoding has no rupee sign. The
  first parameter says whether standard output can encode it.
\<close>

definition printed_values :: "bool \<Rightarrow> dict \<Rightarrow> dict \<Rightarrow> error + real list" where
  "printed_values stdout_has_rupee fuel currency =
     (case getitem fuel ''jet_fuel'' of Inl e \<Rightarrow> Inl e | Inr a \<Rightarrow>
     (case getitem fuel ''brent_crude'' of Inl e \<Rightarrow> Inl e | Inr b \<Rightarrow>
     (case getitem fuel ''wti_crude'' of Inl e \<Rightarrow> Inl e | Inr c \<Rightarrow>
     (case getitem currency ''usd_inr'' of Inl e \<Rightarrow> Inl e | Inr u \<Rightarrow>
        if \<not> stdout_has_rupee then Inl UnicodeEncodeError
        else
     (case getitem currency ''eur_inr'' of Inl e \<Rightarrow> Inl e | Inr eu \<Rightarrow>
     (case getitem currency ''gbp_inr'' of Inl e \<Rightarrow> Inl e | Inr gb \<Rightarrow>
     (case getitem currency ''jpy_inr'' of Inl e \<Rightarrow> Inl e | Inr jp \<Rightarrow>
        Inr [a, b, c, u, eu, gb, jp])))))))"

text \<open>What one collection cycle is given by the outside world.\<close>

record feeds =
  brent_ticker :: "history attempt"
  wti_ticker :: "history attempt"
  exchangerate_response :: "response attempt"
  usd_ticker :: "history attempt"
  eur_ticker :: "history attempt"
  gbp_ticker :: "history attempt"
  jpy_ticker :: "history attempt"
  fuel_time :: instant
  currency_time :: instant
  stdout_encodes_rupee :: bool

text \<open>
  A dict is true in a condition when it is not \<open>None\<close> and not empty.
\<close>

fun truthy :: "dict option \<Rightarrow> bool" where
  "truthy None = False"
| "truthy (Some []) = False"
| "truthy (Some (kv # d)) = True"

text \<open>
  \<open>collect_and_store_realtime_data\<close>: the result, the store afterwards and the log. The
  write and the report sit in one \<open>try\<close>, whose handler logs and returns \<open>False\<close>.
\<close>

definition collect_and_store_realtime_data ::
  "feeds \<Rightarrow> rng \<Rightarrow> store \<Rightarrow> bool \<times> store \<times> log_record list" where
  "collect_and_store_realtime_data w g0 db =
     (let (fuel, g1) = get_live_fuel_prices (brent_ticker w) (wti_ticker w) (fuel_time w) g0;
          (currency, g2) = get_live_currency_rates (exchangerate_response w) (usd_ticker w)
                             (eur_ticker w) (gbp_ticker w) (jpy_ticker w) (currency_time w) g1
      in if truthy fuel \<and> truthy currency then
           (case (fuel, currency) of
              (Some fuel_prices, Some currency_rates) \<Rightarrow>
                (let (db', entry) = store_data_in_database fuel_prices currency_rates db
                 in case printed_values (stdout_encodes_rupee w) fuel_prices currency_rates of
                      Inr vs \<Rightarrow> (True, db', [entry])
                    | Inl e \<Rightarrow> (False, db', [entry, Error ''Error in real-time data collection'']))
            | _ \<Rightarrow> (False, db, [Error ''Error in real-time data collection'']))
         else (False, db, [Error ''Failed to collect real-time data'']))"


section \<open>Reader (app.py)\<close>






section \<open>Change calculator and signal classifier (app.py)\<close>

text \<open>
  The cells read from a row of a frame are numpy doubles. Their division does not raise
  at a zero divisor: it gives an infinity or NaN, which the later multiplication and
  comparisons carry on.
\<close>

datatype np_float = Finite real | PosInf | NegInf | NaN

definition np_divide :: "real \<Rightarrow> real \<Rightarrow> np_float" where
  "np_divide a b =
     (if b \<noteq> 0 then Finite (a / b)
      else if 0 < a then PosInf else if a < 0 then NegInf else NaN)"

fun np_multiply :: "np_float \<Rightarrow> real \<Rightarrow> np_float" where
  "np_multiply (Finite x) c = Finite (x * c)"
| "np_multiply PosInf c = (if 0 < c then PosInf else if c < 0 then NegInf else NaN)"
| "np_multiply NegInf c = (if 0 < c then NegInf else if c < 0 then PosInf else NaN)"
| "np_multiply NaN c = NaN"




text \<open>\<open>(latest - previous) / previous * 100\<close>\<close>

definition percent_change :: "real \<Rightarrow> real \<Rightarrow> np_float" where
  "percent_change latest previous = np_multiply (np_divide (latest - previous) previous) 100"

definition calculate_price_changes ::
  "fuel_row list \<Rightarrow> currency_row list \<Rightarrow> (string \<times> np_float) list" where
  "calculate_price_changes fuel_df currency_df =
     (if fuel_df = [] \<or> currency_df = [] then []
      else
        (case fuel_df of
           latest_fuel # previous_fuel # older \<Rightarrow>
             [(''jet_fuel_change'',
                 percent_change (jet_fuel latest_fuel) (jet_fuel previous_fuel)),
              (''brent_change'',
                 percent_change (brent_crude latest_fuel) (brent_crude previous_fuel)),
              (''wti_change'',
                 percent_change (wti_crude latest_fuel) (wti_crude previous_fuel))]
         | _ \<Rightarrow> [])
        @
        (case currency_df of
           latest_currency # previous_currency # older \<Rightarrow>
             [(''usd_inr_change'',
                 percent_change (usd_inr latest_currency) (usd_inr previous_currency)),
              (''eur_inr_change'',
                 percent_change (eur_inr latest_currency) (eur_inr previous_currency)),
              (''gbp_inr_change'',
                 percent_change (gbp_inr latest_currency) (gbp_inr previous_currency)),
              (''jpy_inr_change'',
                 percent_change (jpy_inr latest_currency) (jpy_inr previous_currency))]
         | _ \<Rightarrow> []))"






section \<open>Fuel observation from live benchmark prices\<close>

text \<open>
  Claim C2. Whenever both benchmark histories are returned non-empty, the fuel observation
  is built from their latest closes \<open>brent\<close> and \<open>wti\<close>: its \<open>jet_fuel\<close> is
  \<open>round((brent + wti) / 2 * 1.35, 6)\<close>, and its \<open>brent_crude\<close> and \<open>wti_crude\<close> are the two
  closes rounded to 2 decimals. The generator is not consulted.
\<close>

theorem C2_live_fuel_observation:
  assumes "brent_data \<noteq> []" and "wti_data \<noteq> []"
  shows "\<exists>d. get_live_fuel_prices (Returned brent_data) (Returned wti_data) now g = (Some d, g)
     \<and> map_of d ''jet_fuel'' = Some (py_round ((last brent_data + last wti_data) / 2 * 1.35) 6)
     \<and> map_of d ''brent_crude'' = Some (py_round (last brent_data) 2)
     \<and> map_of d ''wti_crude'' = Some (py_round (last wti_data) 2)"
  using assms by (simp add: get_live_fuel_prices_def Let_def)

theorem C2_live_fuel_observation_witness:
  "\<exists>d. get_live_fuel_prices (Returned [80.11, 80.123]) (Returned [75.456]) 1000 (\<lambda>n. 1 / 2)
          = (Some d, \<lambda>n. 1 / 2)
     \<and> map_of d ''jet_fuel'' = Some 105.015825
     \<and> map_of d ''brent_crude'' = Some 80.12
     \<and> map_of d ''wti_crude'' = Some 75.46"
  using C2_live_fuel_observation [of "[80.11, 80.123]" "[75.456]" 1000 "\<lambda>n. 1 / 2"]
  by (simp add: py_round_def Let_def)


section \<open>Signal classifier\<close>




section \<open>Shape of the fetched observations\<close>

text \<open>
  Every path of the two fetchers ends in a dict literal with the same keys; the lemmas
  below record that shape once, for the writer and for the collection cycle.
\<close>

lemma fallback_fuel_shape:
  "\<exists>j b w. get_fallback_fuel_prices now g =
     ([(''jet_fuel'', j), (''brent_crude'', b), (''wti_crude'', w), (''timestamp'', now)],
      \<lambda>n. g (Suc (Suc (Suc n))))"
  by (simp add: get_fallback_fuel_prices_def random_uniform_def Let_def)

lemma fallback_currency_shape:
  "\<exists>u e p j. get_fallback_currency_rates now g =
     ([(''usd_inr'', u), (''eur_inr'', e), (''gbp_inr'', p), (''jpy_inr'', j), (''timestamp'', now)],
      \<lambda>n. g (Suc (Suc (Suc (Suc n)))))"
  by (simp add: get_fallback_currency_rates_def random_uniform_def Let_def)

lemma live_fuel_shape:
  "\<exists>j b w g'. get_live_fuel_prices bt wt now g =
     (Some [(''jet_fuel'', j), (''brent_crude'', b), (''wti_crude'', w), (''timestamp'', now)], g')"
proof -
  obtain j b w where fb: "get_fallback_fuel_prices now g =
     ([(''jet_fuel'', j), (''brent_crude'', b), (''wti_crude'', w), (''timestamp'', now)],
      \<lambda>n. g (Suc (Suc (Suc n))))"
    using fallback_fuel_shape by blast
  show ?thesis
    by (cases bt; cases wt) (auto simp: get_live_fuel_prices_def fb Let_def)
qed

lemma exchangerate_api_shape:
  "exchangerate_api resp now = Some d \<Longrightarrow>
   \<exists>u e p j. d = [(''usd_inr'', u), (''eur_inr'', e), (''gbp_inr'', p), (''jpy_inr'', j),
                   (''timestamp'', now)]"
  by (auto simp: exchangerate_api_def split: attempt.splits response.splits if_splits sum.splits)

lemma yahoo_finance_pairs_shape:
  "yahoo_finance_pairs ut et gt jt now = Some d \<Longrightarrow>
   \<exists>u e p j. d = [(''usd_inr'', u), (''eur_inr'', e), (''gbp_inr'', p), (''jpy_inr'', j),
                   (''timestamp'', now)]"
  by (auto simp: yahoo_finance_pairs_def split: attempt.splits if_splits)

lemma live_currency_shape:
  "\<exists>u e p j g'. get_live_currency_rates resp ut et gt jt now g =
     (Some [(''usd_inr'', u), (''eur_inr'', e), (''gbp_inr'', p), (''jpy_inr'', j),
            (''timestamp'', now)], g')"
proof (cases "exchangerate_api resp now")
  case (Some d)
  then show ?thesis
    using exchangerate_api_shape [OF Some] by (auto simp: get_live_currency_rates_def)
next
  case None
  show ?thesis
  proof (cases "yahoo_finance_pairs ut et gt jt now")
    case (Some d)
    then show ?thesis
      using yahoo_finance_pairs_shape [OF Some] None by (auto simp: get_live_currency_rates_def)
  next
    case N2: None
    obtain u e p j where "get_fallback_currency_rates now g =
       ([(''usd_inr'', u), (''eur_inr'', e), (''gbp_inr'', p), (''jpy_inr'', j), (''timestamp'', now)],
        \<lambda>n. g (Suc (Suc (Suc (Suc n)))))"
      using fallback_currency_shape by blast
    then show ?thesis using None N2 by (simp add: get_live_currency_rates_def)
  qed
qed

text \<open>
  Claim C10. For all feeds, times and generator states, \<open>get_live_fuel_prices\<close> and
  \<open>get_live_currency_rates\<close> return a dict and never \<open>None\<close>; its keys are exactly
  \<open>jet_fuel\<close>, \<open>brent_crude\<close>, \<open>wti_crude\<close>, \<open>timestamp\<close> for fuel and \<open>usd_inr\<close>,
  \<open>eur_inr\<close>, \<open>gbp_inr\<close>, \<open>jpy_inr\<close>, \<open>timestamp\<close> for currency, so building the
  parameter tuples of the writer's two inserts raises no KeyError.
\<close>

theorem C10_fetchers_return_writer_keys:
  "(\<exists>d g' row. get_live_fuel_prices bt wt now g = (Some d, g')
      \<and> map fst d = [''jet_fuel'', ''brent_crude'', ''wti_crude'', ''timestamp'']
      \<and> fuel_params d = Inr row)
   \<and> (\<exists>d g' row. get_live_currency_rates resp ut et gt jt now g = (Some d, g')
      \<and> map fst d = [''usd_inr'', ''eur_inr'', ''gbp_inr'', ''jpy_inr'', ''timestamp'']
      \<and> currency_params d = Inr row)"
proof
  obtain j b w g' where "get_live_fuel_prices bt wt now g =
     (Some [(''jet_fuel'', j), (''brent_crude'', b), (''wti_crude'', w), (''timestamp'', now)], g')"
    using live_fuel_shape by blast
  then show "\<exists>d g' row. get_live_fuel_prices bt wt now g = (Some d, g')
      \<and> map fst d = [''jet_fuel'', ''brent_crude'', ''wti_crude'', ''timestamp'']
      \<and> fuel_params d = Inr row"
    by (simp add: fuel_params_def getitem_def)
next
  obtain u e p j g' where "get_live_currency_rates resp ut et gt jt now g =
     (Some [(''usd_inr'', u), (''eur_inr'', e), (''gbp_inr'', p), (''jpy_inr'', j),
            (''timestamp'', now)], g')"
    using live_currency_shape by blast
  then show "\<exists>d g' row. get_live_currency_rates resp ut et gt jt now g = (Some d, g')
      \<and> map fst d = [''usd_inr'', ''eur_inr'', ''gbp_inr'', ''jpy_inr'', ''timestamp'']
      \<and> currency_params d = Inr row"
    by (simp add: currency_params_def getitem_def)
qed

theorem C10_fetchers_return_writer_keys_witness:
  "get_live_fuel_prices Raised Raised 1000 (\<lambda>n. 1 / 2) =
     (Some [(''jet_fuel'', 2.45), (''brent_crude'', 65), (''wti_crude'', 60), (''timestamp'', 1000)],
      \<lambda>n. 1 / 2)
   \<and> get_live_currency_rates Raised Raised Raised Raised Raised 1000 (\<lambda>n. 1 / 2) =
     (Some [(''usd_inr'', 89), (''eur_inr'', 103.5), (''gbp_inr'', 118.5), (''jpy_inr'', 0.575),
            (''timestamp'', 1000)], \<lambda>n. 1 / 2)"
  using C10_fetchers_return_writer_keys
    [of Raised Raised 1000 "\<lambda>n. 1 / 2" Raised Raised Raised Raised Raised]
  by (simp add: get_live_fuel_prices_def get_live_currency_rates_def exchangerate_api_def
      yahoo_finance_pairs_def get_fallback_fuel_prices_def get_fallback_currency_rates_def
      random_uniform_def py_round_def Let_def)


section \<open>Currency sources\<close>

text \<open>
  Claim C8. When the exchange-rate service answers 200 with a USD-based table that holds
  INR, EUR, GBP and JPY, the last three nonzero, the observation comes from that table:
  \<open>usd_inr\<close> is the INR rate rounded to 2 decimals, \<open>eur_inr\<close> and \<open>gbp_inr\<close> are INR / EUR
  and INR / GBP rounded to 2 decimals, and \<open>jpy_inr\<close> is INR / JPY rounded to 6. The witness
  is the table of the specification, with \<open>eur_inr = 97.65\<close>.
\<close>

theorem C8_source_a_cross_rates:
  assumes "map_of rates ''INR'' = Some inr" and "map_of rates ''EUR'' = Some eur"
    and "map_of rates ''GBP'' = Some gbp" and "map_of rates ''JPY'' = Some jpy"
    and "eur \<noteq> 0" and "gbp \<noteq> 0" and "jpy \<noteq> 0"
  shows "get_live_currency_rates (Returned (Response 200 (Returned rates))) ut et gt jt now g =
     (Some [(''usd_inr'', py_round inr 2),
            (''eur_inr'', py_round (inr / eur) 2),
            (''gbp_inr'', py_round (inr / gbp) 2),
            (''jpy_inr'', py_round (inr / jpy) 6),
            (''timestamp'', now)], g)"
  using assms
  by (simp add: get_live_currency_rates_def exchangerate_api_def dict_get_def truediv_def)

theorem C8_source_a_cross_rates_witness:
  "get_live_currency_rates
     (Returned (Response 200
        (Returned [(''INR'', 83.0), (''EUR'', 0.85), (''GBP'', 0.73), (''JPY'', 110.0)])))
     Raised Raised Raised Raised 1000 (\<lambda>n. 1 / 2) =
     (Some [(''usd_inr'', 83.0), (''eur_inr'', 97.65), (''gbp_inr'', 113.70),
            (''jpy_inr'', 0.754545), (''timestamp'', 1000)], \<lambda>n. 1 / 2)"
  using C8_source_a_cross_rates
    [of "[(''INR'', 83.0), (''EUR'', 0.85), (''GBP'', 0.73), (''JPY'', 110.0)]"
        "83.0" "0.85" "0.73" "110.0" Raised Raised Raised Raised 1000 "\<lambda>n. 1 / 2"]
  by (simp add: py_round_def Let_def)

text \<open>
  Claim C7 as stated fails: the USD/INR quote has no default. With the exchange-rate
  service down and an empty USD/INR frame, the three live quotes for EUR, GBP and JPY are
  dropped and the observation is the fallback generator's (\<open>eur_inr = 103.5\<close> here, not the
  live 91.5); a quote that raises ends the attempt as well.
\<close>

theorem C7_counterexample:
  "exchangerate_api Raised 1000 = None
   \<and> yahoo_finance_pairs (Returned []) (Returned [91.5]) (Returned [106.2]) (Returned [0.56]) 1000
       = None
   \<and> get_live_currency_rates Raised (Returned []) (Returned [91.5]) (Returned [106.2])
        (Returned [0.56]) 1000 (\<lambda>n. 1 / 2)
       = apfst Some (get_fallback_currency_rates 1000 (\<lambda>n. 1 / 2))
   \<and> map_of (fst (get_fallback_currency_rates 1000 (\<lambda>n. 1 / 2))) ''eur_inr'' = Some 103.5
   \<and> yahoo_finance_pairs (Returned [83.2]) Raised (Returned [106.2]) (Returned [0.56]) 1000
       = None"
  by (simp add: exchangerate_api_def yahoo_finance_pairs_def get_live_currency_rates_def
      get_fallback_currency_rates_def random_uniform_def py_round_def Let_def)

text \<open>
  Claim C7, amended. When the exchange-rate service gives no observation and the four pair
  histories are returned with a non-empty USD/INR frame, the observation comes from the
  pair quotes: \<open>usd_inr\<close> is live, and each of \<open>eur_inr\<close>, \<open>gbp_inr\<close>, \<open>jpy_inr\<close> is its live
  value, or independently of the others its literal default 90.0, 105.0, 0.55 when its
  frame is empty. When the USD/INR frame is empty or raises, or another quote raises, the
  observation is the fallback generator's.
\<close>

theorem C7_source_b_defaults:
  assumes "exchangerate_api resp now = None"
  shows "(usd_data \<noteq> [] \<longrightarrow>
           get_live_currency_rates resp (Returned usd_data) (Returned eur_data)
             (Returned gbp_data) (Returned jpy_data) now g =
           (Some [(''usd_inr'', py_round (last usd_data) 2),
                  (''eur_inr'', if eur_data = [] then 90.0 else py_round (last eur_data) 2),
                  (''gbp_inr'', if gbp_data = [] then 105.0 else py_round (last gbp_data) 2),
                  (''jpy_inr'', if jpy_data = [] then 0.55 else py_round (last jpy_data) 6),
                  (''timestamp'', now)], g))
       \<and> (ut = Raised \<or> ut = Returned [] \<or> et = Raised
            \<or> gt = Raised \<or> jt = Raised \<longrightarrow>
           get_live_currency_rates resp ut et gt jt now g =
           apfst Some (get_fallback_currency_rates now g))"
  using assms
  by (auto simp: get_live_currency_rates_def yahoo_finance_pairs_def split: attempt.splits)

theorem C7_source_b_defaults_witness:
  "exchangerate_api (Returned (Response 503 Raised)) 1000 = None
   \<and> get_live_currency_rates (Returned (Response 503 Raised)) (Returned [83.217])
        (Returned []) (Returned [106.2]) (Returned []) 1000 (\<lambda>n. 1 / 2) =
      (Some [(''usd_inr'', 83.22), (''eur_inr'', 90.0), (''gbp_inr'', 106.2), (''jpy_inr'', 0.55),
             (''timestamp'', 1000)], \<lambda>n. 1 / 2)
   \<and> get_live_currency_rates (Returned (Response 503 Raised)) (Returned [])
        (Returned [91.5]) (Returned [106.2]) (Returned [0.56]) 1000 (\<lambda>n. 1 / 2) =
      apfst Some (get_fallback_currency_rates 1000 (\<lambda>n. 1 / 2))"
proof -
  have h: "exchangerate_api (Returned (Response 503 Raised)) 1000 = None"
    by (simp add: exchangerate_api_def)
  show ?thesis
    using h
      C7_source_b_defaults [OF h, of "[83.217]" "[]" "[106.2]" "[]" "\<lambda>n. 1 / 2"
        "Returned []" "Returned [91.5]" "Returned [106.2]" "Returned [0.56]"]
    by (simp add: py_round_def Let_def)
qed


section \<open>Fallback generators stay within their intervals\<close>

text \<open>
  Rounding to \<open>n\<close> decimals never crosses a bound that itself has at most \<open>n\<close> decimals.
\<close>

lemma py_round_lower:
  assumes "a * 10 ^ n = of_int k" and "a \<le> x"
  shows "a \<le> py_round x n"
proof -
  have pos: "(0::real) < 10 ^ n" by simp
  have "of_int k \<le> x * 10 ^ n"
    using assms pos by (metis mult_right_mono less_imp_le)
  then have kf: "k \<le> \<lfloor>x * 10 ^ n\<rfloor>" by (simp add: le_floor_iff)
  define r where "r = (if x * 10 ^ n - of_int \<lfloor>x * 10 ^ n\<rfloor> < 1 / 2 then \<lfloor>x * 10 ^ n\<rfloor>
     else if 1 / 2 < x * 10 ^ n - of_int \<lfloor>x * 10 ^ n\<rfloor> then \<lfloor>x * 10 ^ n\<rfloor> + 1
     else if even \<lfloor>x * 10 ^ n\<rfloor> then \<lfloor>x * 10 ^ n\<rfloor> else \<lfloor>x * 10 ^ n\<rfloor> + 1)"
  have pr: "py_round x n = of_int r / 10 ^ n"
    by (simp add: py_round_def Let_def r_def)
  have "k \<le> r" using kf by (simp add: r_def)
  then have "(of_int k :: real) \<le> of_int r" by simp
  then have "a * 10 ^ n \<le> of_int r" using assms by simp
  then have "a \<le> of_int r / 10 ^ n" using pos by (simp add: pos_le_divide_eq)
  then show ?thesis by (simp add: pr)
qed

lemma py_round_upper:
  assumes "b * 10 ^ n = of_int k" and "x \<le> b"
  shows "py_round x n \<le> b"
proof -
  have pos: "(0::real) < 10 ^ n" by simp
  define y where "y = x * 10 ^ n"
  define f where "f = \<lfloor>y\<rfloor>"
  have yk: "y \<le> of_int k"
    using assms pos unfolding y_def by (metis mult_right_mono less_imp_le)
  define r where "r = (if y - of_int f < 1 / 2 then f
     else if 1 / 2 < y - of_int f then f + 1
     else if even f then f else f + 1)"
  have pr: "py_round x n = of_int r / 10 ^ n"
    by (simp add: py_round_def Let_def r_def y_def f_def)
  have fy: "of_int f \<le> y" by (simp add: f_def)
  have "r \<le> k"
  proof (cases "y - of_int f < 1 / 2")
    case True
    then have "r = f" by (simp add: r_def)
    moreover have "(of_int f :: real) \<le> of_int k" using fy yk by linarith
    ultimately show ?thesis by simp
  next
    case False
    then have "of_int f < y" by linarith
    then have "(of_int f :: real) < of_int k" using yk by linarith
    then have "f + 1 \<le> k" by simp
    moreover have "r \<le> f + 1" by (simp add: r_def)
    ultimately show ?thesis by linarith
  qed
  then have "(of_int r :: real) \<le> of_int k" by simp
  then have "of_int r \<le> b * 10 ^ n" using assms by simp
  then have "of_int r / 10 ^ n \<le> b" using pos by (simp add: pos_divide_le_eq)
  then show ?thesis by (simp add: pr)
qed

lemma uniform_round_bounds:
  assumes "a * 10 ^ n = of_int ka" and "b * 10 ^ n = of_int kb" and "a \<le> b"
    and "0 \<le> u" and "u < 1"
  shows "a \<le> py_round (a + (b - a) * u) n \<and> py_round (a + (b - a) * u) n \<le> b"
proof -
  have "0 \<le> (b - a) * u" using assms by simp
  then have lo: "a \<le> a + (b - a) * u" by simp
  have "(b - a) * u \<le> (b - a) * 1"
    using assms by (intro mult_left_mono) auto
  then have hi: "a + (b - a) * u \<le> b" by simp
  show ?thesis
    using py_round_lower [OF assms(1) lo] py_round_upper [OF assms(2) hi] by simp
qed

text \<open>
  Claim C6. Whatever the generator state (any stream of draws in \<open>[0, 1)\<close>, hence after
  any call history), both fallback generators return a complete observation whose rounded
  fields lie in their closed intervals: jet fuel in [2.3, 2.6], Brent in [60, 70], WTI in
  [55, 65], USD in [88, 90], EUR in [102, 105], GBP in [117, 120], JPY in [0.57, 0.58];
  the generator they leave behind is again a stream of draws in \<open>[0, 1)\<close>.
\<close>

theorem C6_fallback_within_bounds:
  assumes "unit_draws g"
  shows "(\<exists>jet brent wti g'. get_fallback_fuel_prices now g =
            ([(''jet_fuel'', jet), (''brent_crude'', brent), (''wti_crude'', wti),
              (''timestamp'', now)], g')
          \<and> 2.3 \<le> jet \<and> jet \<le> 2.6 \<and> 60 \<le> brent \<and> brent \<le> 70 \<and> 55 \<le> wti \<and> wti \<le> 65
          \<and> unit_draws g')
       \<and> (\<exists>usd eur gbp jpy g'. get_fallback_currency_rates now g =
            ([(''usd_inr'', usd), (''eur_inr'', eur), (''gbp_inr'', gbp), (''jpy_inr'', jpy),
              (''timestamp'', now)], g')
          \<and> 88 \<le> usd \<and> usd \<le> 90 \<and> 102 \<le> eur \<and> eur \<le> 105 \<and> 117 \<le> gbp \<and> gbp \<le> 120
          \<and> 0.57 \<le> jpy \<and> jpy \<le> 0.58
          \<and> unit_draws g')"
proof -
  have u: "\<And>n. 0 \<le> g n \<and> g n < 1" using assms by (simp add: unit_draws_def)
  have jet: "2.3 \<le> py_round (2.3 + (2.6 - 2.3) * g 0) 6
      \<and> py_round (2.3 + (2.6 - 2.3) * g 0) 6 \<le> 2.6"
    using u [of 0] by (intro uniform_round_bounds [where ka = 2300000 and kb = 2600000]) auto
  have brent: "60 \<le> py_round (60 + (70 - 60) * g 1) 2 \<and> py_round (60 + (70 - 60) * g 1) 2 \<le> 70"
    using u [of 1] by (intro uniform_round_bounds [where ka = 6000 and kb = 7000]) auto
  have wti: "55 \<le> py_round (55 + (65 - 55) * g 2) 2 \<and> py_round (55 + (65 - 55) * g 2) 2 \<le> 65"
    using u [of 2] by (intro uniform_round_bounds [where ka = 5500 and kb = 6500]) auto
  have usd: "88 \<le> py_round (88 + (90 - 88) * g 0) 2 \<and> py_round (88 + (90 - 88) * g 0) 2 \<le> 90"
    using u [of 0] by (intro uniform_round_bounds [where ka = 8800 and kb = 9000]) auto
  have eur: "102 \<le> py_round (102 + (105 - 102) * g 1) 2
      \<and> py_round (102 + (105 - 102) * g 1) 2 \<le> 105"
    using u [of 1] by (intro uniform_round_bounds [where ka = 10200 and kb = 10500]) auto
  have gbp: "117 \<le> py_round (117 + (120 - 117) * g 2) 2
      \<and> py_round (117 + (120 - 117) * g 2) 2 \<le> 120"
    using u [of 2] by (intro uniform_round_bounds [where ka = 11700 and kb = 12000]) auto
  have jpy: "0.57 \<le> py_round (0.57 + (0.58 - 0.57) * g 3) 6
      \<and> py_round (0.57 + (0.58 - 0.57) * g 3) 6 \<le> 0.58"
    using u [of 3] by (intro uniform_round_bounds [where ka = 570000 and kb = 580000]) auto
  have g3: "unit_draws (\<lambda>n. g (Suc (Suc (Suc n))))"
    and g4: "unit_draws (\<lambda>n. g (Suc (Suc (Suc (Suc n)))))"
    using u by (simp_all add: unit_draws_def)
  have one: "Suc 0 = 1" and two: "Suc (Suc 0) = 2" and three: "Suc (Suc (Suc 0)) = 3"
    by simp_all
  have fuel: "get_fallback_fuel_prices now g =
      ([(''jet_fuel'', py_round (2.3 + (2.6 - 2.3) * g 0) 6),
        (''brent_crude'', py_round (60 + (70 - 60) * g 1) 2),
        (''wti_crude'', py_round (55 + (65 - 55) * g 2) 2),
        (''timestamp'', now)], \<lambda>n. g (Suc (Suc (Suc n))))"
    by (simp add: get_fallback_fuel_prices_def random_uniform_def one two del: One_nat_def)
  have cur: "get_fallback_currency_rates now g =
      ([(''usd_inr'', py_round (88 + (90 - 88) * g 0) 2),
        (''eur_inr'', py_round (102 + (105 - 102) * g 1) 2),
        (''gbp_inr'', py_round (117 + (120 - 117) * g 2) 2),
        (''jpy_inr'', py_round (0.57 + (0.58 - 0.57) * g 3) 6),
        (''timestamp'', now)], \<lambda>n. g (Suc (Suc (Suc (Suc n)))))"
    by (simp add: get_fallback_currency_rates_def random_uniform_def one two three
        del: One_nat_def)
  show ?thesis
    unfolding fuel cur using jet brent wti usd eur gbp jpy g3 g4 by blast
qed

theorem C6_fallback_within_bounds_witness:
  "unit_draws (\<lambda>n. 1 / 2)
   \<and> fst (get_fallback_fuel_prices 1000 (\<lambda>n. 1 / 2)) =
       [(''jet_fuel'', 2.45), (''brent_crude'', 65), (''wti_crude'', 60), (''timestamp'', 1000)]
   \<and> fst (get_fallback_currency_rates 1000 (\<lambda>n. 1 / 2)) =
       [(''usd_inr'', 89), (''eur_inr'', 103.5), (''gbp_inr'', 118.5), (''jpy_inr'', 0.575),
        (''timestamp'', 1000)]"
proof -
  have h: "unit_draws (\<lambda>n. 1 / 2)" by (simp add: unit_draws_def)
  show ?thesis
    using h C6_fallback_within_bounds [OF h, of 1000]
    by (simp add: get_fallback_fuel_prices_def get_fallback_currency_rates_def
        random_uniform_def py_round_def Let_def)
qed


section \<open>Collection cycle and persistence failure\<close>

lemma printed_values_ok:
  "\<exists>vs. printed_values True
     [(''jet_fuel'', j), (''brent_crude'', b), (''wti_crude'', w), (''timestamp'', t)]
     [(''usd_inr'', u), (''eur_inr'', e), (''gbp_inr'', p), (''jpy_inr'', y), (''timestamp'', t')]
     = Inr vs"
  by (simp add: printed_values_def getitem_def)

lemma printed_values_unencodable:
  "printed_values False
     [(''jet_fuel'', j), (''brent_crude'', b), (''wti_crude'', w), (''timestamp'', t)]
     [(''usd_inr'', u), (''eur_inr'', e), (''gbp_inr'', p), (''jpy_inr'', y), (''timestamp'', t')]
     = Inl UnicodeEncodeError"
  by (simp add: printed_values_def getitem_def)

text \<open>
  Both fetchers always deliver, so the cycle always reaches the write and the report; its
  result is \<open>True\<close> exactly when the report can be printed.
\<close>

lemma collect_outcome:
  "\<exists>db' entry.
     collect_and_store_realtime_data w g db =
       (if stdout_encodes_rupee w then (True, db', [entry])
        else (False, db', [entry, Error ''Error in real-time data collection'']))
     \<and> (db', entry) = store_data_in_database
          (the (fst (get_live_fuel_prices (brent_ticker w) (wti_ticker w) (fuel_time w) g)))
          (the (fst (get_live_currency_rates (exchangerate_response w) (usd_ticker w)
             (eur_ticker w) (gbp_ticker w) (jpy_ticker w) (currency_time w)
             (snd (get_live_fuel_prices (brent_ticker w) (wti_ticker w) (fuel_time w) g)))))
          db"
proof -
  obtain j b wt g1 where f: "get_live_fuel_prices (brent_ticker w) (wti_ticker w) (fuel_time w) g =
     (Some [(''jet_fuel'', j), (''brent_crude'', b), (''wti_crude'', wt),
            (''timestamp'', fuel_time w)], g1)"
    using live_fuel_shape by blast
  obtain u e p y g2 where c: "get_live_currency_rates (exchangerate_response w) (usd_ticker w)
       (eur_ticker w) (gbp_ticker w) (jpy_ticker w) (currency_time w) g1 =
     (Some [(''usd_inr'', u), (''eur_inr'', e), (''gbp_inr'', p), (''jpy_inr'', y),
            (''timestamp'', currency_time w)], g2)"
    using live_currency_shape by blast
  obtain vs where pv: "printed_values True
     [(''jet_fuel'', j), (''brent_crude'', b), (''wti_crude'', wt), (''timestamp'', fuel_time w)]
     [(''usd_inr'', u), (''eur_inr'', e), (''gbp_inr'', p), (''jpy_inr'', y),
      (''timestamp'', currency_time w)] = Inr vs"
    using printed_values_ok by blast
  show ?thesis
  proof (cases "stdout_encodes_rupee w")
    case True
    then show ?thesis
      by (simp add: collect_and_store_realtime_data_def f c pv split: prod.splits)
  next
    case False
    then show ?thesis
      by (simp add: collect_and_store_realtime_data_def f c printed_values_unencodable
          split: prod.splits)
  qed
qed

lemma store_failure:
  assumes "\<not> reachable db \<or> read_only db \<or> fuel_prices_table db = None
     \<or> currency_rates_table db = None"
  shows "store_data_in_database fuel currency db = (db, Error ''Error storing data in database'')"
proof -
  have "\<exists>e. insert_both fuel currency db = Inl e"
    using assms by (auto simp: insert_both_def split: sum.splits option.splits)
  then show ?thesis by (auto simp: store_data_in_database_def)
qed

text \<open>
  Claim C1 as stated fails: with live prices fetched, a standard output that prints the
  report and a store that rejects the insert, the cycle still returns \<open>True\<close>. The error is
  only logged by the writer.
\<close>

theorem C1_counterexample:
  "read_only \<lparr>reachable = True, read_only = True, fuel_prices_table = Some [],
               currency_rates_table = Some []\<rparr>
   \<and> collect_and_store_realtime_data
       \<lparr>brent_ticker = Returned [80.123], wti_ticker = Returned [75.456],
        exchangerate_response = Returned (Response 200
          (Returned [(''INR'', 83.0), (''EUR'', 0.85), (''GBP'', 0.73), (''JPY'', 110.0)])),
        usd_ticker = Raised, eur_ticker = Raised, gbp_ticker = Raised, jpy_ticker = Raised,
        fuel_time = 1000, currency_time = 1001, stdout_encodes_rupee = True\<rparr>
       (\<lambda>n. 1 / 2)
       \<lparr>reachable = True, read_only = True, fuel_prices_table = Some [],
        currency_rates_table = Some []\<rparr>
     = (True,
        \<lparr>reachable = True, read_only = True, fuel_prices_table = Some [],
         currency_rates_table = Some []\<rparr>,
        [Error ''Error storing data in database''])"
  by (simp add: collect_and_store_realtime_data_def get_live_fuel_prices_def
      get_live_currency_rates_def exchangerate_api_def dict_get_def truediv_def
      store_data_in_database_def insert_both_def fuel_params_def currency_params_def
      printed_values_def getitem_def Let_def)

text \<open>
  Claim C1, amended. When the write fails (the store is unreachable, rejects the insert,
  or lacks one of the two tables), the writer logs the error and returns normally; the
  store is left as it was and the fetched values are neither retried nor re-queued. The
  cycle then reports success, provided the report it prints after the write can be printed:
  on a standard output that cannot encode the rupee sign of the report the print raises and
  the cycle returns \<open>False\<close>, for the print and not for the write.
\<close>

theorem C1_write_failure_still_success:
  assumes "\<not> reachable db \<or> read_only db \<or> fuel_prices_table db = None
     \<or> currency_rates_table db = None"
  shows "(stdout_encodes_rupee w \<longrightarrow>
            collect_and_store_realtime_data w g db =
              (True, db, [Error ''Error storing data in database'']))
       \<and> (\<not> stdout_encodes_rupee w \<longrightarrow>
            collect_and_store_realtime_data w g db =
              (False, db, [Error ''Error storing data in database'',
                           Error ''Error in real-time data collection'']))"
  using collect_outcome [of w g db] store_failure [OF assms] by auto

theorem C1_write_failure_still_success_witness:
  "\<not> reachable \<lparr>reachable = False, read_only = False, fuel_prices_table = Some [],
          currency_rates_table = Some []\<rparr>
   \<and> collect_and_store_realtime_data
       \<lparr>brent_ticker = Raised, wti_ticker = Raised, exchangerate_response = Raised,
          usd_ticker = Raised, eur_ticker = Raised, gbp_ticker = Raised, jpy_ticker = Raised,
          fuel_time = 1000, currency_time = 1001, stdout_encodes_rupee = True\<rparr>
       (\<lambda>n. 1 / 2)
       \<lparr>reachable = False, read_only = False, fuel_prices_table = Some [],
          currency_rates_table = Some []\<rparr>
     = (True,
        \<lparr>reachable = False, read_only = False, fuel_prices_table = Some [],
          currency_rates_table = Some []\<rparr>,
        [Error ''Error storing data in database''])
   \<and> collect_and_store_realtime_data
       \<lparr>brent_ticker = Raised, wti_ticker = Raised, exchangerate_response = Raised,
          usd_ticker = Raised, eur_ticker = Raised, gbp_ticker = Raised, jpy_ticker = Raised,
          fuel_time = 1000, currency_time = 1001, stdout_encodes_rupee = False\<rparr>
       (\<lambda>n. 1 / 2)
       \<lparr>reachable = False, read_only = False, fuel_prices_table = Some [],
          currency_rates_table = Some []\<rparr>
     = (False,
        \<lparr>reachable = False, read_only = False, fuel_prices_table = Some [],
          currency_rates_table = Some []\<rparr>,
        [Error ''Error storing data in database'', Error ''Error in real-time data collection''])"
  using
    C1_write_failure_still_success
      [of "\<lparr>reachable = False, read_only = False, fuel_prices_table = Some [],
          currency_rates_table = Some []\<rparr>"
          "\<lparr>brent_ticker = Raised, wti_ticker = Raised, exchangerate_response = Raised,
          usd_ticker = Raised, eur_ticker = Raised, gbp_ticker = Raised, jpy_ticker = Raised,
          fuel_time = 1000, currency_time = 1001, stdout_encodes_rupee = True\<rparr>"
          "\<lambda>n. 1 / 2"]
    C1_write_failure_still_success
      [of "\<lparr>reachable = False, read_only = False, fuel_prices_table = Some [],
          currency_rates_table = Some []\<rparr>"
          "\<lparr>brent_ticker = Raised, wti_ticker = Raised, exchangerate_response = Raised,
          usd_ticker = Raised, eur_ticker = Raised, gbp_ticker = Raised, jpy_ticker = Raised,
          fuel_time = 1000, currency_time = 1001, stdout_encodes_rupee = False\<rparr>"
          "\<lambda>n. 1 / 2"]
  by simp


section \<open>Reader\<close>
















section \<open>Change calculator\<close>

text \<open>
  Claim C3 as stated fails twice. A fuel series of two records loses its keys when the
  currency series is empty; and a previous value of zero does not remove the key, which
  then holds an infinity.
\<close>

theorem C3_counterexample:
  "calculate_price_changes
     [\<lparr>timestamp = 2000, jet_fuel = 2.55, brent_crude = 66, wti_crude = 61.2\<rparr>,
      \<lparr>timestamp = 1000, jet_fuel = 2.50, brent_crude = 60, wti_crude = 60\<rparr>]
     [] = []
   \<and> map_of (calculate_price_changes
        [\<lparr>timestamp = 2000, jet_fuel = 2.55, brent_crude = 66, wti_crude = 61.2\<rparr>,
         \<lparr>timestamp = 1000, jet_fuel = 0, brent_crude = 60, wti_crude = 60\<rparr>]
        [\<lparr>timestamp = 2000, usd_inr = 83, eur_inr = 90, gbp_inr = 105, jpy_inr = 0.55\<rparr>])
        ''jet_fuel_change'' = Some PosInf"
  by (simp add: calculate_price_changes_def percent_change_def np_divide_def)

text \<open>
  Claim C3, amended. The calculator is total. It returns the empty mapping when either
  series is empty; when neither is, the keys of a series are present exactly when that
  series has at least 2 records, whatever the other series holds.
\<close>

theorem C3_absent_keys:
  "(fuel_df = [] \<or> currency_df = [] \<longrightarrow> calculate_price_changes fuel_df currency_df = [])
   \<and> (fuel_df \<noteq> [] \<and> currency_df \<noteq> [] \<longrightarrow>
        map fst (calculate_price_changes fuel_df currency_df) =
          (if 2 \<le> length fuel_df then [''jet_fuel_change'', ''brent_change'', ''wti_change'']
           else [])
          @ (if 2 \<le> length currency_df
             then [''usd_inr_change'', ''eur_inr_change'', ''gbp_inr_change'', ''jpy_inr_change'']
             else []))"
proof (intro conjI impI)
  assume "fuel_df = [] \<or> currency_df = []"
  then show "calculate_price_changes fuel_df currency_df = []"
    by (auto simp: calculate_price_changes_def)
next
  assume a: "fuel_df \<noteq> [] \<and> currency_df \<noteq> []"
  then obtain lf rf lc rc where f: "fuel_df = lf # rf" and c: "currency_df = lc # rc"
    by (auto simp: neq_Nil_conv)
  show "map fst (calculate_price_changes fuel_df currency_df) =
          (if 2 \<le> length fuel_df then [''jet_fuel_change'', ''brent_change'', ''wti_change'']
           else [])
          @ (if 2 \<le> length currency_df
             then [''usd_inr_change'', ''eur_inr_change'', ''gbp_inr_change'', ''jpy_inr_change'']
             else [])"
    unfolding f c by (cases rf; cases rc) (simp_all add: calculate_price_changes_def)
qed

theorem C3_absent_keys_witness:
  "map fst (calculate_price_changes
      [\<lparr>timestamp = 2000, jet_fuel = 2.55, brent_crude = 66, wti_crude = 61.2\<rparr>,
       \<lparr>timestamp = 1000, jet_fuel = 2.50, brent_crude = 60, wti_crude = 60\<rparr>]
      [\<lparr>timestamp = 2001, usd_inr = 83, eur_inr = 90, gbp_inr = 105, jpy_inr = 0.55\<rparr>])
     = [''jet_fuel_change'', ''brent_change'', ''wti_change'']
   \<and> calculate_price_changes []
      [\<lparr>timestamp = 2001, usd_inr = 83, eur_inr = 90, gbp_inr = 105, jpy_inr = 0.55\<rparr>,
       \<lparr>timestamp = 1001, usd_inr = 82, eur_inr = 90, gbp_inr = 105, jpy_inr = 0.55\<rparr>] = []"
  using
    C3_absent_keys [of
      "[\<lparr>timestamp = 2000, jet_fuel = 2.55, brent_crude = 66, wti_crude = 61.2\<rparr>,
        \<lparr>timestamp = 1000, jet_fuel = 2.50, brent_crude = 60, wti_crude = 60\<rparr>]"
      "[\<lparr>timestamp = 2001, usd_inr = 83, eur_inr = 90, gbp_inr = 105, jpy_inr = 0.55\<rparr>]"]
    C3_absent_keys [of "[]"
      "[\<lparr>timestamp = 2001, usd_inr = 83, eur_inr = 90, gbp_inr = 105, jpy_inr = 0.55\<rparr>,
        \<lparr>timestamp = 1001, usd_inr = 82, eur_inr = 90, gbp_inr = 105, jpy_inr = 0.55\<rparr>]"]
  by simp

text \<open>
  Claim C5 as stated fails: the fuel series 2.50, 2.55 gives no \<open>jet_fuel_change\<close> at all
  when the currency series is empty.
\<close>

theorem C5_counterexample:
  "map_of (calculate_price_changes
        [\<lparr>timestamp = 2000, jet_fuel = 2.55, brent_crude = 66, wti_crude = 61.2\<rparr>,
         \<lparr>timestamp = 1000, jet_fuel = 2.50, brent_crude = 60, wti_crude = 60\<rparr>]
        []) ''jet_fuel_change'' = None"
  by (simp add: calculate_price_changes_def)

text \<open>
  Claim C5, amended. For a series with at least 2 records, provided the other series is
  not empty, the output for each of its instruments whose previous value is nonzero is
  \<open>(latest - previous) / previous * 100\<close>, latest being the first row and previous the
  second. The witness has previous jet fuel 2.50 and latest 2.55, a change of 2.
\<close>

theorem C5_percent_changes:
  "(fuel_df = latest_fuel # previous_fuel # older_fuel \<and> currency_df \<noteq> [] \<longrightarrow>
      (jet_fuel previous_fuel \<noteq> 0 \<longrightarrow>
         map_of (calculate_price_changes fuel_df currency_df) ''jet_fuel_change'' =
           Some (Finite ((jet_fuel latest_fuel - jet_fuel previous_fuel)
                          / jet_fuel previous_fuel * 100)))
    \<and> (brent_crude previous_fuel \<noteq> 0 \<longrightarrow>
         map_of (calculate_price_changes fuel_df currency_df) ''brent_change'' =
           Some (Finite ((brent_crude latest_fuel - brent_crude previous_fuel)
                          / brent_crude previous_fuel * 100)))
    \<and> (wti_crude previous_fuel \<noteq> 0 \<longrightarrow>
         map_of (calculate_price_changes fuel_df currency_df) ''wti_change'' =
           Some (Finite ((wti_crude latest_fuel - wti_crude previous_fuel)
                          / wti_crude previous_fuel * 100))))
   \<and> (currency_df = latest_currency # previous_currency # older_currency \<and> fuel_df \<noteq> [] \<longrightarrow>
      (usd_inr previous_currency \<noteq> 0 \<longrightarrow>
         map_of (calculate_price_changes fuel_df currency_df) ''usd_inr_change'' =
           Some (Finite ((usd_inr latest_currency - usd_inr previous_currency)
                          / usd_inr previous_currency * 100)))
    \<and> (eur_inr previous_currency \<noteq> 0 \<longrightarrow>
         map_of (calculate_price_changes fuel_df currency_df) ''eur_inr_change'' =
           Some (Finite ((eur_inr latest_currency - eur_inr previous_currency)
                          / eur_inr previous_currency * 100)))
    \<and> (gbp_inr previous_currency \<noteq> 0 \<longrightarrow>
         map_of (calculate_price_changes fuel_df currency_df) ''gbp_inr_change'' =
           Some (Finite ((gbp_inr latest_currency - gbp_inr previous_currency)
                          / gbp_inr previous_currency * 100)))
    \<and> (jpy_inr previous_currency \<noteq> 0 \<longrightarrow>
         map_of (calculate_price_changes fuel_df currency_df) ''jpy_inr_change'' =
           Some (Finite ((jpy_inr latest_currency - jpy_inr previous_currency)
                          / jpy_inr previous_currency * 100))))"
proof (intro conjI impI)
  assume a: "fuel_df = latest_fuel # previous_fuel # older_fuel \<and> currency_df \<noteq> []"
  then obtain lc rc where c: "currency_df = lc # rc" by (auto simp: neq_Nil_conv)
  have f: "fuel_df = latest_fuel # previous_fuel # older_fuel" using a by simp
  { assume "jet_fuel previous_fuel \<noteq> 0"
    then show "map_of (calculate_price_changes fuel_df currency_df) ''jet_fuel_change'' =
           Some (Finite ((jet_fuel latest_fuel - jet_fuel previous_fuel)
                          / jet_fuel previous_fuel * 100))"
      unfolding f c
      by (cases rc) (simp_all add: calculate_price_changes_def percent_change_def np_divide_def) }
  { assume "brent_crude previous_fuel \<noteq> 0"
    then show "map_of (calculate_price_changes fuel_df currency_df) ''brent_change'' =
           Some (Finite ((brent_crude latest_fuel - brent_crude previous_fuel)
                          / brent_crude previous_fuel * 100))"
      unfolding f c
      by (cases rc) (simp_all add: calculate_price_changes_def percent_change_def np_divide_def) }
  { assume "wti_crude previous_fuel \<noteq> 0"
    then show "map_of (calculate_price_changes fuel_df currency_df) ''wti_change'' =
           Some (Finite ((wti_crude latest_fuel - wti_crude previous_fuel)
                          / wti_crude previous_fuel * 100))"
      unfolding f c
      by (cases rc) (simp_all add: calculate_price_changes_def percent_change_def np_divide_def) }
next
  assume a: "currency_df = latest_currency # previous_currency # older_currency \<and> fuel_df \<noteq> []"
  then obtain lf rf where f: "fuel_df = lf # rf" by (auto simp: neq_Nil_conv)
  have c: "currency_df = latest_currency # previous_currency # older_currency" using a by simp
  { assume "usd_inr previous_currency \<noteq> 0"
    then show "map_of (calculate_price_changes fuel_df currency_df) ''usd_inr_change'' =
           Some (Finite ((usd_inr latest_currency - usd_inr previous_currency)
                          / usd_inr previous_currency * 100))"
      unfolding f c
      by (cases rf) (simp_all add: calculate_price_changes_def percent_change_def np_divide_def) }
  { assume "eur_inr previous_currency \<noteq> 0"
    then show "map_of (calculate_price_changes fuel_df currency_df) ''eur_inr_change'' =
           Some (Finite ((eur_inr latest_currency - eur_inr previous_currency)
                          / eur_inr previous_currency * 100))"
      unfolding f c
      by (cases rf) (simp_all add: calculate_price_changes_def percent_change_def np_divide_def) }
  { assume "gbp_inr previous_currency \<noteq> 0"
    then show "map_of (calculate_price_changes fuel_df currency_df) ''gbp_inr_change'' =
           Some (Finite ((gbp_inr latest_currency - gbp_inr previous_currency)
                          / gbp_inr previous_currency * 100))"
      unfolding f c
      by (cases rf) (simp_all add: calculate_price_changes_def percent_change_def np_divide_def) }
  { assume "jpy_inr previous_currency \<noteq> 0"
    then show "map_of (calculate_price_changes fuel_df currency_df) ''jpy_inr_change'' =
           Some (Finite ((jpy_inr latest_currency - jpy_inr previous_currency)
                          / jpy_inr previous_currency * 100))"
      unfolding f c
      by (cases rf) (simp_all add: calculate_price_changes_def percent_change_def np_divide_def) }
qed

theorem C5_percent_changes_witness:
  "map_of (calculate_price_changes
      [\<lparr>timestamp = 2000, jet_fuel = 2.55, brent_crude = 66, wti_crude = 61.2\<rparr>,
       \<lparr>timestamp = 1000, jet_fuel = 2.50, brent_crude = 60, wti_crude = 60\<rparr>]
      [\<lparr>timestamp = 2001, usd_inr = 83.83, eur_inr = 90, gbp_inr = 105, jpy_inr = 0.55\<rparr>])
     ''jet_fuel_change'' = Some (Finite 2)
   \<and> calculate_price_changes
      [\<lparr>timestamp = 2000, jet_fuel = 2.55, brent_crude = 66, wti_crude = 61.2\<rparr>,
       \<lparr>timestamp = 1000, jet_fuel = 2.50, brent_crude = 60, wti_crude = 60\<rparr>]
      [\<lparr>timestamp = 2001, usd_inr = 83.83, eur_inr = 90, gbp_inr = 105, jpy_inr = 0.55\<rparr>,
       \<lparr>timestamp = 1001, usd_inr = 83, eur_inr = 100, gbp_inr = 100, jpy_inr = 0.5\<rparr>]
   = [(''jet_fuel_change'', Finite 2), (''brent_change'', Finite 10), (''wti_change'', Finite 2),
      (''usd_inr_change'', Finite 1), (''eur_inr_change'', Finite (- 10)),
      (''gbp_inr_change'', Finite 5), (''jpy_inr_change'', Finite 10)]"
  using
    C5_percent_changes [of
      "[\<lparr>timestamp = 2000, jet_fuel = 2.55, brent_crude = 66, wti_crude = 61.2\<rparr>,
        \<lparr>timestamp = 1000, jet_fuel = 2.50, brent_crude = 60, wti_crude = 60\<rparr>]"
      "\<lparr>timestamp = 2000, jet_fuel = 2.55, brent_crude = 66, wti_crude = 61.2\<rparr>"
      "\<lparr>timestamp = 1000, jet_fuel = 2.50, brent_crude = 60, wti_crude = 60\<rparr>"
      "[]"
      "[\<lparr>timestamp = 2001, usd_inr = 83.83, eur_inr = 90, gbp_inr = 105, jpy_inr = 0.55\<rparr>]"]
    C5_percent_changes [of
      "[\<lparr>timestamp = 2000, jet_fuel = 2.55, brent_crude = 66, wti_crude = 61.2\<rparr>,
        \<lparr>timestamp = 1000, jet_fuel = 2.50, brent_crude = 60, wti_crude = 60\<rparr>]"
      "\<lparr>timestamp = 2000, jet_fuel = 2.55, brent_crude = 66, wti_crude = 61.2\<rparr>"
      "\<lparr>timestamp = 1000, jet_fuel = 2.50, brent_crude = 60, wti_crude = 60\<rparr>"
      "[]"
      "[\<lparr>timestamp = 2001, usd_inr = 83.83, eur_inr = 90, gbp_inr = 105, jpy_inr = 0.55\<rparr>,
        \<lparr>timestamp = 1001, usd_inr = 83, eur_inr = 100, gbp_inr = 100, jpy_inr = 0.5\<rparr>]"
      "\<lparr>timestamp = 2001, usd_inr = 83.83, eur_inr = 90, gbp_inr = 105, jpy_inr = 0.55\<rparr>"
      "\<lparr>timestamp = 1001, usd_inr = 83, eur_inr = 100, gbp_inr = 100, jpy_inr = 0.5\<rparr>"
      "[]"]
  by (simp add: calculate_price_changes_def percent_change_def np_divide_def)

end
